theory Spec2Isabelle
  imports Main
begin

section \<open>JavaScript values and strings\<close>

text \<open>
  The generator is JavaScript. An exception is the left summand of a result. The value
  \<open>undefined\<close> (also \<open>null\<close> and \<open>false\<close>, which the code only ever tests for truthiness)
  is \<open>None\<close>; an argument the caller leaves out is \<open>undefined\<close> in the callee.
\<close>

datatype js_error = TypeError | SyntaxError

text \<open>Truthiness of a string-or-undefined value: \<open>undefined\<close> and the empty string are falsy.\<close>

fun truthy :: "string option \<Rightarrow> bool" where
  "truthy None = False"
| "truthy (Some s) = (s \<noteq> [])"

text \<open>
  \<open>a || b\<close>: the left operand is evaluated first; an exception in it propagates, a truthy
  value is the result, and only a falsy value lets the right operand decide.
\<close>

definition or_else :: "js_error + string option \<Rightarrow> js_error + string option \<Rightarrow> js_error + string option" where
  "or_else a b = (case a of Inl e \<Rightarrow> Inl e | Inr v \<Rightarrow> if truthy v then Inr v else b)"

text \<open>\<open>Array.prototype.join\<close> on an array of strings.\<close>

fun join :: "string \<Rightarrow> string list \<Rightarrow> string" where
  "join sep [] = []"
| "join sep [x] = x"
| "join sep (x # y # ys) = x @ sep @ join sep (y # ys)"

text \<open>
  \<open>Array.prototype.map\<close> with a callback that may throw: the elements are visited in order
  and the first exception ends the call.
\<close>

fun array_map :: "('a \<Rightarrow> js_error + 'b) \<Rightarrow> 'a list \<Rightarrow> js_error + 'b list" where
  "array_map f [] = Inr []"
| "array_map f (x # xs) =
     (case f x of
        Inl e \<Rightarrow> Inl e
      | Inr y \<Rightarrow> (case array_map f xs of Inl e \<Rightarrow> Inl e | Inr ys \<Rightarrow> Inr (y # ys)))"

text \<open>Number to string, for the integers an enum or an integer constant carries: decimal digits.\<close>

fun show_nat :: "nat \<Rightarrow> string" where
  "show_nat n = (if n < 10 then [''0123456789'' ! n] else show_nat (n div 10) @ [''0123456789'' ! (n mod 10)])"

declare show_nat.simps [simp del]

definition show_int :: "int \<Rightarrow> string" where
  "show_int i = (if i < 0 then ''-'' @ show_nat (nat (- i)) else show_nat (nat i))"

text \<open>
  A property read \<open>obj[key]\<close> on an object literal finds the literal's own entries first and
  then the members every object inherits from \<open>Object.prototype\<close>. The inherited members are
  functions (and, under \<open>__proto__\<close>, the prototype object itself): truthy values that are not
  strings. They are carried here by the text a template literal makes of them in Node's
  engine.
\<close>

definition objectPrototype :: "(string \<times> string) list" where
  "objectPrototype =
    [(''constructor'', ''function Object() { [native code] }''),
     (''__defineGetter__'', ''function __defineGetter__() { [native code] }''),
     (''__defineSetter__'', ''function __defineSetter__() { [native code] }''),
     (''hasOwnProperty'', ''function hasOwnProperty() { [native code] }''),
     (''__lookupGetter__'', ''function __lookupGetter__() { [native code] }''),
     (''__lookupSetter__'', ''function __lookupSetter__() { [native code] }''),
     (''isPrototypeOf'', ''function isPrototypeOf() { [native code] }''),
     (''propertyIsEnumerable'', ''function propertyIsEnumerable() { [native code] }''),
     (''toString'', ''function toString() { [native code] }''),
     (''valueOf'', ''function valueOf() { [native code] }''),
     (''__proto__'', ''[object Object]''),
     (''toLocaleString'', ''function toLocaleString() { [native code] }'')]"

definition getProperty :: "(string \<times> string) list \<Rightarrow> string \<Rightarrow> string option" where
  "getProperty obj key = (case map_of obj key of Some v \<Rightarrow> Some v | None \<Rightarrow> map_of objectPrototype key)"

section \<open>The syntax tree the parser hands over\<close>

text \<open>
  The nodes of \<open>thriftrw/ast\<close> the generator reads. A base type carries its tag and its
  annotations (an object, or \<open>undefined\<close>); only an \<open>Identifier\<close> node has a \<open>name\<close>.
\<close>

datatype base_type = Tbinary | Tbool | Tbyte | Ti8 | Ti16 | Ti32 | Ti64 | Tdouble | Tstring | Tvoid

datatype type_ref =
    BaseType base_type "(string \<rightharpoonup> string) option"
  | Identifier string
  | ListType type_ref
  | SetType type_ref
  | MapType type_ref type_ref

record field =
  name :: string
  valueType :: type_ref
  optional :: bool

record function_definition =
  fn_id :: string
  fn_fields :: "field list"
  fn_returns :: type_ref

text \<open>An enum member: its name, and its \<open>value\<close> node (a literal, or \<open>null\<close> when none is written).\<close>

record enum_definition =
  ed_id :: string
  ed_value :: "int option"

text \<open>
  \<open>def.value.value\<close> of a constant: a string, an integer, or any other value, which is kept
  as the text the template literal makes of it.
\<close>

datatype literal = StringLiteral string | IntegerLiteral int | OtherLiteral string

text \<open>
  A top-level definition. The last alternative is a node of any other \<open>type\<close>, with its
  \<open>id\<close> when it has one.
\<close>

datatype ast_definition =
    Struct string "field list"
  | Exception string "field list"
  | Union string "field list"
  | Enum string "enum_definition list"
  | Typedef string type_ref
  | Service string "function_definition list"
  | Const string type_ref literal
  | Unsupported string "string option"

fun def_id :: "ast_definition \<Rightarrow> string option" where
  "def_id (Struct n fs) = Some n"
| "def_id (Exception n fs) = Some n"
| "def_id (Union n fs) = Some n"
| "def_id (Enum n ds) = Some n"
| "def_id (Typedef n t) = Some n"
| "def_id (Service n fns) = Some n"
| "def_id (Const n t v) = Some n"
| "def_id (Unsupported k i) = i"

fun instanceof_Enum :: "ast_definition \<Rightarrow> bool" where
  "instanceof_Enum (Enum n ds) = True"
| "instanceof_Enum d = False"

fun type_name :: "type_ref \<Rightarrow> string option" where
  "type_name (Identifier n) = Some n"
| "type_name t = None"

section \<open>TypeConverter (types.js)\<close>

record TypeConverter =
  transformName :: "string \<Rightarrow> string"

definition new_TypeConverter :: "(string \<Rightarrow> string) \<Rightarrow> TypeConverter" where
  "new_TypeConverter T = \<lparr>transformName = T\<rparr>"

fun primitives :: "base_type \<Rightarrow> string" where
  "primitives Tbinary = ''Buffer''"
| "primitives Tbool = ''boolean''"
| "primitives Tbyte = ''number''"
| "primitives Ti8 = ''number''"
| "primitives Ti16 = ''number''"
| "primitives Ti32 = ''number''"
| "primitives Ti64 = ''Buffer''"
| "primitives Tdouble = ''number''"
| "primitives Tstring = ''string''"
| "primitives Tvoid = ''void''"

definition i64Mappings :: "(string \<times> string) list" where
  "i64Mappings = [(''Long'', ''Long''), (''Date'', ''Date'')]"

text \<open>
  \<open>annotation\<close>: for an \<open>i64\<close> with a truthy \<open>js.type\<close> annotation, whatever the mapping
  object holds under that key; the empty string otherwise.
\<close>

fun annotation :: "type_ref \<Rightarrow> string option" where
  "annotation (BaseType b ann) =
     (let jsType = (case ann of None \<Rightarrow> None | Some a \<Rightarrow> a ''js.type'')
      in if b = Ti64 \<and> truthy jsType then getProperty i64Mappings (the jsType) else Some [])"
| "annotation t = Some []"

text \<open>
  \<open>allDefinitions.find(value => value.id.name === defName)\<close>: the definitions are tried in
  order up to the first match; a definition without \<open>id\<close> makes the callback throw.
\<close>

fun array_find :: "string option \<Rightarrow> ast_definition list \<Rightarrow> js_error + ast_definition option" where
  "array_find defName [] = Inr None"
| "array_find defName (d # ds) =
     (case def_id d of
        None \<Rightarrow> Inl TypeError
      | Some n \<Rightarrow> if Some n = defName then Inr (Some d) else array_find defName ds)"

text \<open>
  \<open>isEnum\<close>: with \<open>allDefinitions\<close> left \<open>undefined\<close>, reading its \<open>find\<close> throws.
\<close>

definition isEnum :: "type_ref \<Rightarrow> ast_definition list option \<Rightarrow> js_error + bool" where
  "isEnum t allDefinitions =
     (case allDefinitions of
        None \<Rightarrow> Inl TypeError
      | Some defs \<Rightarrow>
          (case array_find (type_name t) defs of
             Inl e \<Rightarrow> Inl e
           | Inr None \<Rightarrow> Inr False
           | Inr (Some d) \<Rightarrow> Inr (instanceof_Enum d)))"

definition enumType :: "TypeConverter \<Rightarrow> type_ref \<Rightarrow> ast_definition list option \<Rightarrow> js_error + string option" where
  "enumType this t allDefinitions =
     (case isEnum t allDefinitions of
        Inl e \<Rightarrow> Inl e
      | Inr False \<Rightarrow> Inr None
      | Inr True \<Rightarrow>
          (case type_name t of
             None \<Rightarrow> Inl TypeError
           | Some n \<Rightarrow> Inr (Some (''$Keys<typeof '' @ transformName this n @ ''>''))))"

text \<open>
  \<open>convert\<close>, with \<open>arrayType\<close> and \<open>mapType\<close>, which call it back on the element types. The
  last operand of the chain reads \<open>t.name\<close>, which only an \<open>Identifier\<close> has; the other nodes
  never reach it (list, set and map return before, and every base type is in
  \<open>primitives\<close>), nor does \<open>enumType\<close> find an enum for a node without a name. Those
  branches are closed with a TypeError here.
\<close>

fun convert :: "TypeConverter \<Rightarrow> type_ref \<Rightarrow> ast_definition list option \<Rightarrow> js_error + string"
  and arrayType :: "TypeConverter \<Rightarrow> type_ref \<Rightarrow> ast_definition list option \<Rightarrow> js_error + string option"
  and mapType :: "TypeConverter \<Rightarrow> type_ref \<Rightarrow> ast_definition list option \<Rightarrow> js_error + string option"
where
  "convert this t allDefinitions =
     (case or_else (arrayType this t allDefinitions)
            (or_else (enumType this t allDefinitions)
              (or_else (mapType this t allDefinitions)
                (or_else (Inr (annotation t))
                  (or_else (Inr (case t of BaseType b ann \<Rightarrow> Some (primitives b) | _ \<Rightarrow> None))
                    (case type_name t of
                       Some n \<Rightarrow> Inr (Some (transformName this n))
                     | None \<Rightarrow> Inl TypeError))))) of
        Inl e \<Rightarrow> Inl e
      | Inr None \<Rightarrow> Inl TypeError
      | Inr (Some s) \<Rightarrow> Inr s)"
| "arrayType this (ListType v) allDefinitions =
     (case convert this v allDefinitions of Inl e \<Rightarrow> Inl e | Inr s \<Rightarrow> Inr (Some (s @ ''[]'')))"
| "arrayType this (SetType v) allDefinitions =
     (case convert this v allDefinitions of Inl e \<Rightarrow> Inl e | Inr s \<Rightarrow> Inr (Some (s @ ''[]'')))"
| "arrayType this (BaseType b ann) allDefinitions = Inr None"
| "arrayType this (Identifier n) allDefinitions = Inr None"
| "arrayType this (MapType k v) allDefinitions = Inr None"
| "mapType this (MapType k v) allDefinitions =
     (case convert this k allDefinitions of
        Inl e \<Rightarrow> Inl e
      | Inr ktype \<Rightarrow>
          (case convert this v allDefinitions of
             Inl e \<Rightarrow> Inl e
           | Inr vtype \<Rightarrow> Inr (Some (''{['' @ ktype @ '']: '' @ vtype @ ''}''))))"
| "mapType this (BaseType b ann) allDefinitions = Inr None"
| "mapType this (Identifier n) allDefinitions = Inr None"
| "mapType this (ListType v) allDefinitions = Inr None"
| "mapType this (SetType v) allDefinitions = Inr None"

section \<open>ThriftFileConverter (convert.js)\<close>

text \<open>
  What the generator uses of its surroundings: Node's \<open>path\<close> module (\<open>basename\<close> with its
  optional extension argument), the clock (\<open>new Date().toString()\<close>) and the formatter
  (\<open>prettier.format\<close> with the flow parser, which may throw).
\<close>

record runtime =
  path_resolve :: "string \<Rightarrow> string"
  path_dirname :: "string \<Rightarrow> string"
  path_basename :: "string \<Rightarrow> string option \<Rightarrow> string"
  path_relative :: "string \<Rightarrow> string \<Rightarrow> string"
  path_join :: "string \<Rightarrow> string \<Rightarrow> string"
  date_now :: string
  prettier_format :: "string \<Rightarrow> js_error + string"

text \<open>
  What the generator reads of the parser's \<open>Thrift\<close> object: the definitions of the entry
  file (\<open>asts[filename].definitions\<close>) and the keys of \<open>idls\<close>, in the order
  \<open>Object.keys\<close> lists them.
\<close>

record Thrift =
  definitions :: "ast_definition list"
  idls :: "string list"

record ThriftFileConverter =
  thriftPath :: string
  thrift :: Thrift
  types :: TypeConverter
  transformName :: "string \<Rightarrow> string"
  enumvalues :: bool
  withsource :: bool

text \<open>The constructor; \<open>parsed\<close> is the object \<open>new Thrift(...)\<close> returns for the entry point.\<close>

definition new_ThriftFileConverter ::
  "runtime \<Rightarrow> Thrift \<Rightarrow> string \<Rightarrow> (string \<Rightarrow> string) \<Rightarrow> bool \<Rightarrow> bool \<Rightarrow> ThriftFileConverter" where
  "new_ThriftFileConverter rt parsed path T ev ws =
     \<lparr>thriftPath = path_resolve rt path,
      thrift = parsed,
      types = new_TypeConverter T,
      transformName = T,
      enumvalues = ev,
      withsource = ws\<rparr>"

definition isOptional :: "field \<Rightarrow> bool" where
  "isOptional f = optional f"

text \<open>
  \<open>generateStructContents\<close>. The type of each field is converted by
  \<open>this.types.convert(f.valueType)\<close>: one argument, so \<open>allDefinitions\<close> is \<open>undefined\<close>.
\<close>

definition generateStructContents :: "ThriftFileConverter \<Rightarrow> field list \<Rightarrow> js_error + string" where
  "generateStructContents this fs =
     (case array_map
             (\<lambda>f. case convert (types this) (valueType f) None of
                    Inl e \<Rightarrow> Inl e
                  | Inr t \<Rightarrow> Inr (name f @ (if isOptional f then ''?'' else []) @ '': '' @ t @ '';''))
             fs of
        Inl e \<Rightarrow> Inl e
      | Inr entries \<Rightarrow> Inr (''{|'' @ join ''\<newline>'' entries @ ''|}''))"

definition generateStruct :: "ThriftFileConverter \<Rightarrow> string \<Rightarrow> field list \<Rightarrow> js_error + string" where
  "generateStruct this n fs =
     (case generateStructContents this fs of
        Inl e \<Rightarrow> Inl e
      | Inr contents \<Rightarrow> Inr (''export type '' @ ThriftFileConverter.transformName this n @ '' = '' @ contents @ '';''))"

definition generateUnionContents :: "ThriftFileConverter \<Rightarrow> field list \<Rightarrow> js_error + string" where
  "generateUnionContents this fs =
     (if length fs = 0 then Inr ''{||}''
      else
        (case array_map
                (\<lambda>f. case convert (types this) (valueType f) None of
                       Inl e \<Rightarrow> Inl e
                     | Inr t \<Rightarrow> Inr (''{|'' @ name f @ '': '' @ t @ ''|}''))
                fs of
           Inl e \<Rightarrow> Inl e
         | Inr alternatives \<Rightarrow> Inr (join '' | '' alternatives)))"

definition generateUnion :: "ThriftFileConverter \<Rightarrow> string \<Rightarrow> field list \<Rightarrow> js_error + string" where
  "generateUnion this n fs =
     (case generateUnionContents this fs of
        Inl e \<Rightarrow> Inl e
      | Inr contents \<Rightarrow> Inr (''export type '' @ ThriftFileConverter.transformName this n @ '' = '' @ contents @ '';''))"

definition generateFunction :: "ThriftFileConverter \<Rightarrow> function_definition \<Rightarrow> js_error + string" where
  "generateFunction this fn =
     (case (if length (fn_fields fn) \<noteq> 0 then generateStructContents this (fn_fields fn) else Inr []) of
        Inl e \<Rightarrow> Inl e
      | Inr params \<Rightarrow>
          (case convert (types this) (fn_returns fn) None of
             Inl e \<Rightarrow> Inl e
           | Inr r \<Rightarrow> Inr (fn_id fn @ '': ('' @ params @ '') => '' @ r)))"

definition generateService :: "ThriftFileConverter \<Rightarrow> string \<Rightarrow> function_definition list \<Rightarrow> js_error + string" where
  "generateService this n fns =
     (case array_map (generateFunction this) fns of
        Inl e \<Rightarrow> Inl e
      | Inr entries \<Rightarrow>
          Inr (''export type '' @ ThriftFileConverter.transformName this n @ '' = {\<newline>'' @ join '','' entries @ ''};''))"

definition generateTypedef :: "ThriftFileConverter \<Rightarrow> string \<Rightarrow> type_ref \<Rightarrow> js_error + string" where
  "generateTypedef this n t =
     (case convert (types this) t None of
        Inl e \<Rightarrow> Inl e
      | Inr r \<Rightarrow> Inr (''export type '' @ ThriftFileConverter.transformName this n @ '' = '' @ r @ '';''))"

text \<open>The members of an enum, each with its index in the array.\<close>

definition generateEnumValues :: "enum_definition list \<Rightarrow> string" where
  "generateEnumValues ds =
     join '' | ''
       (map (\<lambda>(index, d). case ed_value d of Some v \<Rightarrow> show_int v | None \<Rightarrow> show_nat index)
            (enumerate 0 ds))"

definition generateEnumKeys :: "enum_definition list \<Rightarrow> string" where
  "generateEnumKeys ds = join '' | '' (map (\<lambda>d. ''\"'' @ ed_id d @ ''\"'') ds) @ '';''"

text \<open>
  \<open>generateEnum\<close>: the two templates span two source lines each, so the text between the
  declarations is a line break and the indentation of the second line.
\<close>

definition generateEnum :: "ThriftFileConverter \<Rightarrow> string \<Rightarrow> enum_definition list \<Rightarrow> string" where
  "generateEnum this n ds =
     (if enumvalues this then
        ''export type '' @ ThriftFileConverter.transformName this n @ '' = '' @ generateEnumValues ds
          @ '';\<newline>       export type '' @ ThriftFileConverter.transformName this n @ ''Keys = ''
          @ generateEnumKeys ds @ '';''
      else
        ''export type '' @ ThriftFileConverter.transformName this n @ ''Values = '' @ generateEnumValues ds
          @ '';\<newline>      export type '' @ ThriftFileConverter.transformName this n @ '' = ''
          @ generateEnumKeys ds @ '';'')"

text \<open>\<open>generateConst\<close>: a string value is put between single quotes as it is.\<close>

definition generateConst :: "ThriftFileConverter \<Rightarrow> string \<Rightarrow> type_ref \<Rightarrow> literal \<Rightarrow> js_error + string" where
  "generateConst this n t v =
     (let val = (case v of
                   StringLiteral s \<Rightarrow> [CHR 0x27] @ s @ [CHR 0x27]
                 | IntegerLiteral i \<Rightarrow> show_int i
                 | OtherLiteral s \<Rightarrow> s)
      in case convert (types this) t None of
           Inl e \<Rightarrow> Inl e
         | Inr r \<Rightarrow> Inr (''export const '' @ ThriftFileConverter.transformName this n @ '': '' @ r @ '' = '' @ val @ '';''))"

text \<open>
  \<open>convertDefinitionToCode\<close> returns the code (or \<open>null\<close>) and the lines written with
  \<open>console.warn\<close>. The \<open>switch\<close> goes by \<open>def.type\<close>; a node of another class that carries
  one of the seven tags has none of the members the selected renderer reads.
\<close>

definition supported_types :: "string list" where
  "supported_types = [''Struct'', ''Exception'', ''Union'', ''Enum'', ''Typedef'', ''Service'', ''Const'']"

fun convertDefinitionToCode ::
  "runtime \<Rightarrow> ThriftFileConverter \<Rightarrow> ast_definition \<Rightarrow> (js_error + string option) \<times> string list" where
  "convertDefinitionToCode rt this (Struct n fs) = (map_sum id Some (generateStruct this n fs), [])"
| "convertDefinitionToCode rt this (Exception n fs) = (map_sum id Some (generateStruct this n fs), [])"
| "convertDefinitionToCode rt this (Union n fs) = (map_sum id Some (generateUnion this n fs), [])"
| "convertDefinitionToCode rt this (Enum n ds) = (Inr (Some (generateEnum this n ds)), [])"
| "convertDefinitionToCode rt this (Typedef n t) = (map_sum id Some (generateTypedef this n t), [])"
| "convertDefinitionToCode rt this (Service n fns) = (map_sum id Some (generateService this n fns), [])"
| "convertDefinitionToCode rt this (Const n t v) = (map_sum id Some (generateConst this n t v), [])"
| "convertDefinitionToCode rt this (Unsupported k i) =
     (if k \<in> set supported_types then (Inl TypeError, [])
      else (Inr None,
            [path_basename rt (thriftPath this) None @ '': Skipping '' @ k @ '' ''
               @ (case i of Some n \<Rightarrow> n | None \<Rightarrow> ''?'')]))"

text \<open>
  \<open>definitions.map(this.convertDefinitionToCode)\<close>: the warnings written so far stay written
  when a later definition throws.
\<close>

fun convertDefinitions ::
  "runtime \<Rightarrow> ThriftFileConverter \<Rightarrow> ast_definition list \<Rightarrow> (js_error + string option list) \<times> string list" where
  "convertDefinitions rt this [] = (Inr [], [])"
| "convertDefinitions rt this (d # ds) =
     (case convertDefinitionToCode rt this d of
        (Inl e, w) \<Rightarrow> (Inl e, w)
      | (Inr c, w) \<Rightarrow>
          (case convertDefinitions rt this ds of
             (Inl e, ws) \<Rightarrow> (Inl e, w @ ws)
           | (Inr cs, ws) \<Rightarrow> (Inr (c # cs), w @ ws)))"

definition getImportAbsPaths :: "runtime \<Rightarrow> ThriftFileConverter \<Rightarrow> string list" where
  "getImportAbsPaths rt this = map (path_resolve rt) (idls (thrift this))"

text \<open>The import statements, before they are joined.\<close>

definition importStatements :: "runtime \<Rightarrow> ThriftFileConverter \<Rightarrow> string list" where
  "importStatements rt this =
     map (\<lambda>relpath. ''import * as '' @ path_basename rt relpath None @ '' from '' @ [CHR 0x27] @ relpath
                      @ ''.js'' @ [CHR 0x27] @ '';'')
       (map (\<lambda>p. if CHR ''/'' \<notin> set p then ''./'' @ p else p)
          (map (\<lambda>p. path_join rt
                       (path_dirname rt (path_relative rt (path_dirname rt (thriftPath this)) p))
                       (path_basename rt p (Some ''.thrift'')))
             (filter (\<lambda>p. p \<noteq> thriftPath this) (getImportAbsPaths rt this))))"

definition generateImports :: "runtime \<Rightarrow> ThriftFileConverter \<Rightarrow> string" where
  "generateImports rt this = join ''\<newline>'' (importStatements rt this)"

text \<open>\<open>.filter(Boolean)\<close> on an array of strings and \<open>null\<close>s.\<close>

definition filter_Boolean :: "string option list \<Rightarrow> string list" where
  "filter_Boolean xs = map the (filter truthy xs)"

definition generateFlowFile :: "runtime \<Rightarrow> ThriftFileConverter \<Rightarrow> (js_error + string) \<times> string list" where
  "generateFlowFile rt this =
     (let header =
            [Some ''// @flow'',
             Some (''// Generated by thrift2flow at '' @ date_now rt
                   @ (if withsource this then ''\<newline>// Source: '' @ thriftPath this else [])),
             Some (generateImports rt this)]
      in case convertDefinitions rt this (definitions (thrift this)) of
           (Inl e, ws) \<Rightarrow> (Inl e, ws)
         | (Inr codes, ws) \<Rightarrow>
             (prettier_format rt (join ''\<newline>\<newline>'' (filter_Boolean (header @ codes))), ws))"

section \<open>Notions the claims are stated with\<close>

text \<open>
  The union of an enum's value literals, in the words of the specification: the explicit
  value of a member if it has one, else its zero-based position among the members.
\<close>

definition value_literal :: "nat \<Rightarrow> enum_definition \<Rightarrow> string" where
  "value_literal i d = (case ed_value d of Some v \<Rightarrow> show_int v | None \<Rightarrow> show_nat i)"

definition value_union :: "enum_definition list \<Rightarrow> string" where
  "value_union ds = join '' | '' (map (\<lambda>i. value_literal i (ds ! i)) [0..<length ds])"

text \<open>The union of the members' names as string literals.\<close>

definition key_union :: "enum_definition list \<Rightarrow> string" where
  "key_union ds = join '' | '' (map (\<lambda>d. ''\"'' @ ed_id d @ ''\"'') ds)"

text \<open>One exported type alias.\<close>

definition exported_type :: "string \<Rightarrow> string \<Rightarrow> string" where
  "exported_type n body = ''export type '' @ n @ '' = '' @ body @ '';''"

text \<open>The same converter object over another list of top-level definitions.\<close>

definition with_definitions :: "ThriftFileConverter \<Rightarrow> ast_definition list \<Rightarrow> ThriftFileConverter" where
  "with_definitions this ds = this\<lparr>thrift := (thrift this)\<lparr>definitions := ds\<rparr>\<rparr>"

text \<open>
  The module path of an imported file: its path relative to the entry file's directory,
  the \<open>.thrift\<close> extension stripped, and \<open>./\<close> in front when no directory part is left.
\<close>

definition module_path :: "runtime \<Rightarrow> string \<Rightarrow> string \<Rightarrow> string" where
  "module_path rt entry p =
     (let rel = path_join rt (path_dirname rt (path_relative rt (path_dirname rt entry) p))
                  (path_basename rt p (Some ''.thrift''))
      in if CHR ''/'' \<in> set rel then rel else ''./'' @ rel)"

text \<open>
  The six rules of the type mapper, in the words of the specification and in its order:
  list or set; a name that is the name of an enum among the definitions; map; an \<open>i64\<close>
  annotated \<open>js.type = Long\<close> or \<open>Date\<close>; the table of primitives; the transformed name.
\<close>

definition js_type :: "(string \<rightharpoonup> string) option \<Rightarrow> string option" where
  "js_type ann = (case ann of None \<Rightarrow> None | Some a \<Rightarrow> a ''js.type'')"

definition names_enum :: "ast_definition list \<Rightarrow> string \<Rightarrow> bool" where
  "names_enum defs n = list_ex (\<lambda>d. instanceof_Enum d \<and> def_id d = Some n) defs"

definition primitive_table :: "base_type \<Rightarrow> string" where
  "primitive_table b =
     (if b = Tbool then ''boolean''
      else if b \<in> {Tbyte, Ti8, Ti16, Ti32, Tdouble} then ''number''
      else if b = Tstring then ''string''
      else if b \<in> {Tbinary, Ti64} then ''Buffer''
      else ''void'')"

fun type_expression :: "(string \<Rightarrow> string) \<Rightarrow> ast_definition list \<Rightarrow> type_ref \<Rightarrow> string" where
  "type_expression T defs (ListType v) = type_expression T defs v @ ''[]''"
| "type_expression T defs (SetType v) = type_expression T defs v @ ''[]''"
| "type_expression T defs (Identifier n) =
     (if names_enum defs n then ''$Keys<typeof '' @ T n @ ''>'' else T n)"
| "type_expression T defs (MapType k v) =
     ''{['' @ type_expression T defs k @ '']: '' @ type_expression T defs v @ ''}''"
| "type_expression T defs (BaseType b ann) =
     (if b = Ti64 \<and> js_type ann = Some ''Long'' then ''Long''
      else if b = Ti64 \<and> js_type ann = Some ''Date'' then ''Date''
      else primitive_table b)"

text \<open>
  What the specification assumes of a syntax tree: every definition has a name and no two
  share one. An annotation is plain when its \<open>js.type\<close> is not the name of a member that
  object literals inherit.
\<close>

definition well_formed_definitions :: "ast_definition list \<Rightarrow> bool" where
  "well_formed_definitions defs = (list_all (\<lambda>d. def_id d \<noteq> None) defs \<and> distinct (map def_id defs))"

fun plain_annotations :: "type_ref \<Rightarrow> bool" where
  "plain_annotations (BaseType b ann) =
     (case js_type ann of None \<Rightarrow> True | Some v \<Rightarrow> v \<notin> fst ` set objectPrototype)"
| "plain_annotations (Identifier n) = True"
| "plain_annotations (ListType v) = plain_annotations v"
| "plain_annotations (SetType v) = plain_annotations v"
| "plain_annotations (MapType k v) = (plain_annotations k \<and> plain_annotations v)"

section \<open>Sample inputs\<close>

text \<open>
  A converter object with the identity as name transform, and a runtime for the samples:
  its \<open>path\<close> functions agree with Node's on absolute, normalised paths below the entry
  file's directory, the formatter returns its input.
\<close>

definition sample_converter :: ThriftFileConverter where
  "sample_converter =
     \<lparr>thriftPath = ''/idl/service.thrift'',
      thrift = \<lparr>definitions = [], idls = []\<rparr>,
      types = new_TypeConverter id,
      transformName = id,
      enumvalues = False,
      withsource = False\<rparr>"

fun last_segment :: "string \<Rightarrow> string \<Rightarrow> string" where
  "last_segment acc [] = acc"
| "last_segment acc (c # cs) = (if c = CHR ''/'' then last_segment [] cs else last_segment (acc @ [c]) cs)"

definition strip_suffix :: "string \<Rightarrow> string \<Rightarrow> string" where
  "strip_suffix ext s =
     (if length ext < length s \<and> drop (length s - length ext) s = ext
      then take (length s - length ext) s else s)"

definition sample_dirname :: "string \<Rightarrow> string" where
  "sample_dirname p =
     (let d = take (length p - length (last_segment [] p) - 1) p
      in if CHR ''/'' \<notin> set p then ''.'' else if d = [] then ''/'' else d)"

definition sample_runtime :: runtime where
  "sample_runtime =
     \<lparr>path_resolve = id,
      path_dirname = sample_dirname,
      path_basename = (\<lambda>p ext. case ext of None \<Rightarrow> last_segment [] p | Some e \<Rightarrow> strip_suffix e (last_segment [] p)),
      path_relative = (\<lambda>from to. if take (length from + 1) to = from @ ''/'' then drop (length from + 1) to else to),
      path_join = (\<lambda>a b. if a = ''.'' then b else a @ ''/'' @ b),
      date_now = ''Thu Jan 01 1970 00:00:00 GMT+0000 (Coordinated Universal Time)'',
      prettier_format = Inr\<rparr>"

text \<open>
  Two files under the transform that puts \<open>T\<close> in front of a name: \<open>common.thrift\<close> with
  \<open>struct Foo {}\<close>, and the entry file \<open>service.thrift\<close> that includes it and holds
  \<open>typedef common.Foo Bar\<close>.
\<close>

definition prefix_T :: "string \<Rightarrow> string" where
  "prefix_T n = ''T'' @ n"

definition sample_included :: ThriftFileConverter where
  "sample_included =
     new_ThriftFileConverter sample_runtime
       \<lparr>definitions = [Struct ''Foo'' []], idls = [''/idl/common.thrift'']\<rparr>
       ''/idl/common.thrift'' prefix_T False False"

definition sample_entry :: ThriftFileConverter where
  "sample_entry =
     new_ThriftFileConverter sample_runtime
       \<lparr>definitions = [Typedef ''Bar'' (Identifier ''common.Foo'')],
        idls = [''/idl/service.thrift'', ''/idl/common.thrift'']\<rparr>
       ''/idl/service.thrift'' prefix_T False False"

section \<open>Failure of every type conversion the generator starts\<close>

declare convert.simps [simp del]

lemma enumType_undefined: "enumType tc t None = Inl TypeError"
  by (simp add: enumType_def isEnum_def)

text \<open>
  Without its second argument \<open>convert\<close> always throws: a list or a set passes the missing
  argument on to its element, and every other node reaches \<open>isEnum\<close>.
\<close>

lemma convert_undefined: "convert tc t None = Inl TypeError"
proof (induction t)
  case (BaseType b ann)
  show ?case by (subst convert.simps) (simp add: or_else_def enumType_undefined)
next
  case (Identifier n)
  show ?case by (subst convert.simps) (simp add: or_else_def enumType_undefined)
next
  case (ListType t)
  then show ?case by (subst convert.simps) (simp add: or_else_def)
next
  case (SetType t)
  then show ?case by (subst convert.simps) (simp add: or_else_def)
next
  case (MapType k v)
  then show ?case by (subst convert.simps) (simp add: or_else_def enumType_undefined)
qed

lemma generateStructContents_result:
  "generateStructContents this fs = (if fs = [] then Inr ''{||}'' else Inl TypeError)"
  by (cases fs) (simp_all add: generateStructContents_def convert_undefined)

lemma generateUnionContents_result:
  "generateUnionContents this fs = (if fs = [] then Inr ''{||}'' else Inl TypeError)"
  by (cases fs) (simp_all add: generateUnionContents_def convert_undefined)

lemma generateFunction_throws: "generateFunction this fn = Inl TypeError"
  by (simp add: generateFunction_def convert_undefined generateStructContents_result split: sum.splits)

lemma generateService_result:
  "generateService this n fns =
     (if fns = [] then Inr (''export type '' @ ThriftFileConverter.transformName this n @ '' = {\<newline>};'')
      else Inl TypeError)"
  by (cases fns) (simp_all add: generateService_def generateFunction_throws)

lemma generateTypedef_throws: "generateTypedef this n t = Inl TypeError"
  by (simp add: generateTypedef_def convert_undefined)

lemma generateConst_throws: "generateConst this n t v = Inl TypeError"
  by (simp add: generateConst_def convert_undefined Let_def)

section \<open>The type mapper with its definition list\<close>

lemma array_find_nameless:
  "list_all (\<lambda>d. def_id d \<noteq> None) defs \<Longrightarrow> array_find None defs = Inr None"
  by (induction defs) auto

lemma array_find_named:
  "list_all (\<lambda>d. def_id d \<noteq> None) defs \<Longrightarrow>
   array_find (Some n) defs = Inr (find (\<lambda>d. def_id d = Some n) defs)"
  by (induction defs) auto

lemma isEnum_nameless:
  "list_all (\<lambda>d. def_id d \<noteq> None) defs \<Longrightarrow> type_name t = None \<Longrightarrow> isEnum t (Some defs) = Inr False"
  by (simp add: isEnum_def array_find_nameless)

lemma find_unique:
  "distinct (map f xs) \<Longrightarrow> x \<in> set xs \<Longrightarrow> f x = k \<Longrightarrow> find (\<lambda>d. f d = k) xs = Some x"
  by (induction xs) (auto simp: image_iff)

lemma isEnum_named:
  assumes "well_formed_definitions defs"
  shows "isEnum (Identifier n) (Some defs) = Inr (names_enum defs n)"
proof -
  from assms have ids: "list_all (\<lambda>d. def_id d \<noteq> None) defs" and dist: "distinct (map def_id defs)"
    by (simp_all add: well_formed_definitions_def)
  show ?thesis
  proof (cases "find (\<lambda>d. def_id d = Some n) defs")
    case None
    then have "\<not> names_enum defs n"
      by (auto simp: names_enum_def list_ex_iff find_None_iff)
    with None ids show ?thesis
      by (simp add: isEnum_def array_find_named)
  next
    case (Some d)
    then have d: "d \<in> set defs" "def_id d = Some n"
      by (auto simp: find_Some_iff)
    have "names_enum defs n = instanceof_Enum d"
    proof
      assume "names_enum defs n"
      then obtain e where e: "e \<in> set defs" "instanceof_Enum e" "def_id e = Some n"
        by (auto simp: names_enum_def list_ex_iff)
      from find_unique [OF dist e(1) e(3)] Some have "e = d"
        by simp
      with e show "instanceof_Enum d"
        by simp
    next
      assume "instanceof_Enum d"
      with d show "names_enum defs n"
        by (auto simp: names_enum_def list_ex_iff)
    qed
    with Some ids show ?thesis
      by (simp add: isEnum_def array_find_named)
  qed
qed

lemma primitives_table: "primitives b = primitive_table b"
  by (cases b) (simp_all add: primitive_table_def)

lemma primitives_truthy: "primitives b \<noteq> []"
  by (cases b) simp_all

lemma primitive_table_truthy: "primitive_table b \<noteq> []"
  using primitives_truthy [of b] by (simp add: primitives_table)

lemma getProperty_i64Mappings:
  "v \<notin> fst ` set objectPrototype \<Longrightarrow>
   getProperty i64Mappings v = (if v = ''Long'' then Some ''Long'' else if v = ''Date'' then Some ''Date'' else None)"
  by (auto simp: getProperty_def i64Mappings_def map_of_eq_None_iff)

text \<open>
  Given the definition list, \<open>convert\<close> does not throw on a well-formed tree and applies the
  first of the six rules that matches, for every annotation that is plain.
\<close>

lemma convert_follows_rules:
  assumes "well_formed_definitions defs"
  shows "plain_annotations t \<Longrightarrow>
         convert (new_TypeConverter T) t (Some defs) = Inr (type_expression T defs t)"
proof (induction t)
  case (BaseType b ann)
  from assms have ids: "list_all (\<lambda>d. def_id d \<noteq> None) defs"
    by (simp add: well_formed_definitions_def)
  have e: "enumType (new_TypeConverter T) (BaseType b ann) (Some defs) = Inr None"
    by (simp add: enumType_def isEnum_nameless [OF ids])
  show ?case
  proof (cases "js_type ann")
    case None
    then show ?thesis
      by (subst convert.simps)
        (simp add: or_else_def e js_type_def primitive_table_truthy primitives_table)
  next
    case (Some v)
    with BaseType.prems have "v \<notin> fst ` set objectPrototype"
      by simp
    from getProperty_i64Mappings [OF this] Some show ?thesis
      by (subst convert.simps)
        (auto simp add: or_else_def e js_type_def primitive_table_truthy primitives_table)
  qed
next
  case (Identifier n)
  show ?case
    by (subst convert.simps)
      (simp add: or_else_def enumType_def isEnum_named [OF assms] new_TypeConverter_def)
next
  case (ListType t)
  then show ?case
    by (subst convert.simps) (simp add: or_else_def)
next
  case (SetType t)
  then show ?case
    by (subst convert.simps) (simp add: or_else_def)
next
  case (MapType k v)
  from assms have ids: "list_all (\<lambda>d. def_id d \<noteq> None) defs"
    by (simp add: well_formed_definitions_def)
  have e: "enumType (new_TypeConverter T) (MapType k v) (Some defs) = Inr None"
    by (simp add: enumType_def isEnum_nameless [OF ids])
  from MapType show ?case
    by (subst convert.simps) (simp add: or_else_def e)
qed

section \<open>The generator does not read the definition list while rendering\<close>

lemma with_definitions_fields [simp]:
  "types (with_definitions this ds) = types this"
  "ThriftFileConverter.transformName (with_definitions this ds) = ThriftFileConverter.transformName this"
  "enumvalues (with_definitions this ds) = enumvalues this"
  "withsource (with_definitions this ds) = withsource this"
  "thriftPath (with_definitions this ds) = thriftPath this"
  "idls (thrift (with_definitions this ds)) = idls (thrift this)"
  "definitions (thrift (with_definitions this ds)) = ds"
  by (simp_all add: with_definitions_def)

lemma generateStructContents_with_definitions:
  "generateStructContents (with_definitions this ds) fs = generateStructContents this fs"
  by (simp add: generateStructContents_def)

lemma generateFunction_with_definitions:
  "generateFunction (with_definitions this ds) = generateFunction this"
  by (rule ext) (simp add: generateFunction_def generateStructContents_with_definitions cong: sum.case_cong)

lemma convertDefinitionToCode_with_definitions:
  "convertDefinitionToCode rt (with_definitions this ds) d = convertDefinitionToCode rt this d"
  by (cases d)
    (simp_all add: generateStruct_def generateStructContents_with_definitions
      generateUnion_def generateUnionContents_def generateEnum_def generateTypedef_def
      generateService_def generateFunction_with_definitions generateConst_def
      cong: sum.case_cong)

lemma convertDefinitions_with_definitions:
  "convertDefinitions rt (with_definitions this ds') ds = convertDefinitions rt this ds"
  by (induction ds) (simp_all add: convertDefinitionToCode_with_definitions cong: prod.case_cong sum.case_cong)

lemma convertDefinitions_append:
  "convertDefinitions rt this (xs @ ys) =
     (case convertDefinitions rt this xs of
        (Inl e, w) \<Rightarrow> (Inl e, w)
      | (Inr cs, w) \<Rightarrow>
          (case convertDefinitions rt this ys of
             (Inl e, w') \<Rightarrow> (Inl e, w @ w')
           | (Inr cs', w') \<Rightarrow> (Inr (cs @ cs'), w @ w')))"
  by (induction xs) (auto split: prod.splits sum.splits)

lemma filter_Boolean_append: "filter_Boolean (xs @ ys) = filter_Boolean xs @ filter_Boolean ys"
  by (simp add: filter_Boolean_def)

lemma filter_Boolean_None: "filter_Boolean (None # xs) = filter_Boolean xs"
  by (simp add: filter_Boolean_def)

lemma generateImports_with_definitions:
  "generateImports rt (with_definitions this ds) = generateImports rt this"
  by (simp add: generateImports_def importStatements_def getImportAbsPaths_def)

section \<open>Positions of enum members\<close>

lemma map_enumerate_nth:
  "map (\<lambda>(i, d). f i d) (enumerate 0 ds) = map (\<lambda>i. f i (ds ! i)) [0..<length ds]"
  by (rule nth_equalityI) (simp_all add: nth_enumerate_eq)

lemma generateEnumValues_value_union: "generateEnumValues ds = value_union ds"
  unfolding generateEnumValues_def value_union_def value_literal_def
  by (simp add: map_enumerate_nth)

section \<open>The claims\<close>

text \<open>
  C1 (rendering raises no error). The source does not keep this promise. The converter
  itself, given the definition list, falls back to \<open>transformName(name)\<close> for a name that
  resolves to nothing; but every call the generator makes is \<open>this.types.convert(x)\<close> with
  the definition list left out, and \<open>isEnum\<close> then reads \<open>find\<close> of \<open>undefined\<close>. For the
  file that holds only \<open>struct S { 1: optional string name }\<close>, \<open>generateFlowFile\<close> throws
  a TypeError, whatever the runtime, the name transform and the options.
\<close>

theorem generateFlowFile_struct_field_throws:
  "fst (generateFlowFile rt
          (new_ThriftFileConverter rt
             \<lparr>definitions = [Struct ''S'' [\<lparr>name = ''name'', valueType = BaseType Tstring None, optional = True\<rparr>]],
              idls = [''s.thrift'']\<rparr>
             ''s.thrift'' T ev ws))
   = Inl TypeError"
  by (simp add: generateFlowFile_def new_ThriftFileConverter_def generateStruct_def
      generateStructContents_result)

text \<open>
  C2 (the six rules of \<open>convert\<close>). The order of the rules is the order of the source, and
  on well-formed definitions \<open>convert\<close> follows them for every plain annotation
  (\<open>convert_follows_rules\<close>). Rule 4 fails where the claim lets an unrecognized annotation
  fall through: \<open>i64Mappings\<close> is an object literal, so \<open>i64Mappings[jsType]\<close> also finds the
  members inherited from \<open>Object.prototype\<close>. For an \<open>i64\<close> annotated
  \<open>js.type = "constructor"\<close> the lookup is truthy and \<open>convert\<close> returns it (the function
  \<open>Object\<close>, here by its text) where the rules give \<open>Buffer\<close>.
\<close>

theorem convert_inherited_annotation:
  "convert (new_TypeConverter id) (BaseType Ti64 (Some [''js.type'' \<mapsto> ''constructor''])) (Some [])
     = Inr ''function Object() { [native code] }''
   \<and> type_expression id [] (BaseType Ti64 (Some [''js.type'' \<mapsto> ''constructor''])) = ''Buffer''"
  by (simp add: convert.simps or_else_def enumType_def isEnum_def getProperty_def i64Mappings_def
      objectPrototype_def js_type_def primitive_table_def)

text \<open>
  C3 (service rendering). A service with a function does not render. For the service
  \<open>Calculator\<close> with the function \<open>add(1: i32 a, 2: optional i32 b)\<close> returning \<open>i32\<close>,
  \<open>generateFunction\<close> converts the parameter types and the return type without the
  definition list, and \<open>generateService\<close> throws a TypeError where the claim has one exported
  type alias with a property for \<open>add\<close>.
\<close>

theorem generateService_one_function_throws:
  "generateService sample_converter ''Calculator''
     [\<lparr>fn_id = ''add'',
       fn_fields = [\<lparr>name = ''a'', valueType = BaseType Ti32 None, optional = False\<rparr>,
                    \<lparr>name = ''b'', valueType = BaseType Ti32 None, optional = True\<rparr>],
       fn_returns = BaseType Ti32 None\<rparr>]
   = Inl TypeError"
  by (simp add: generateService_result)

text \<open>
  C4 (enum rendering). An enum yields exactly two exported types, one line each: the union
  of the value literals (the explicit value of a member, else its position counted from
  zero) and the union of the quoted member names. With \<open>enumvalues\<close> the value union has the
  plain name and the key union the name with \<open>Keys\<close>; without it the key union has the plain
  name and the value union the name with \<open>Values\<close>. (The key union ends in two semicolons:
  \<open>generateEnumKeys\<close> already closes it.) In particular the enum \<open>Color { RED, GREEN, BLUE }\<close>
  without \<open>enumvalues\<close> yields \<open>ColorValues = 0 | 1 | 2\<close> and
  \<open>Color = "RED" | "GREEN" | "BLUE"\<close>.
\<close>

theorem generateEnum_two_exported_types:
  "generateEnum this n ds =
     (if enumvalues this then
        exported_type (ThriftFileConverter.transformName this n) (value_union ds)
          @ ''\<newline>       ''
          @ exported_type (ThriftFileConverter.transformName this n @ ''Keys'') (key_union ds) @ '';''
      else
        exported_type (ThriftFileConverter.transformName this n @ ''Values'') (value_union ds)
          @ ''\<newline>      ''
          @ exported_type (ThriftFileConverter.transformName this n) (key_union ds) @ '';'')
   \<and> generateEnum sample_converter ''Color''
         [\<lparr>ed_id = ''RED'', ed_value = None\<rparr>, \<lparr>ed_id = ''GREEN'', ed_value = None\<rparr>,
          \<lparr>ed_id = ''BLUE'', ed_value = None\<rparr>]
       = ''export type ColorValues = 0 | 1 | 2;\<newline>      export type Color = \"RED\" | \"GREEN\" | \"BLUE\";;''"
proof
  show "generateEnum this n ds =
     (if enumvalues this then
        exported_type (ThriftFileConverter.transformName this n) (value_union ds)
          @ ''\<newline>       ''
          @ exported_type (ThriftFileConverter.transformName this n @ ''Keys'') (key_union ds) @ '';''
      else
        exported_type (ThriftFileConverter.transformName this n @ ''Values'') (value_union ds)
          @ ''\<newline>      ''
          @ exported_type (ThriftFileConverter.transformName this n) (key_union ds) @ '';'')"
    by (simp add: generateEnum_def generateEnumValues_value_union generateEnumKeys_def
        exported_type_def key_union_def)
next
  show "generateEnum sample_converter ''Color''
         [\<lparr>ed_id = ''RED'', ed_value = None\<rparr>, \<lparr>ed_id = ''GREEN'', ed_value = None\<rparr>,
          \<lparr>ed_id = ''BLUE'', ed_value = None\<rparr>]
       = ''export type ColorValues = 0 | 1 | 2;\<newline>      export type Color = \"RED\" | \"GREEN\" | \"BLUE\";;''"
    by (simp add: generateEnum_def generateEnumValues_def generateEnumKeys_def sample_converter_def
        enumerate_eq_zip show_nat.simps upt_rec)
qed

text \<open>
  C5 (struct and exception rendering). The rendering the claim describes is what
  \<open>generateStructContents\<close> is written to produce, but for the struct of the scenario,
  \<open>{ 1: optional string name }\<close>, the source throws a TypeError where the claim has
  \<open>{|name?: string;|}\<close>: the field's type is converted without the definition list.
\<close>

theorem generateStruct_optional_field_throws:
  "generateStruct sample_converter ''S''
     [\<lparr>name = ''name'', valueType = BaseType Tstring None, optional = True\<rparr>]
   = Inl TypeError"
  by (simp add: generateStruct_def generateStructContents_result)

text \<open>
  C6 (union rendering). A union without fields renders as \<open>{||}\<close>, as claimed. A union with
  fields does not render: for \<open>union U { 1: i32 a; 2: string b }\<close> the source throws a
  TypeError where the claim has two alternatives joined by \<open>|\<close>.
\<close>

theorem generateUnion_two_fields_throws:
  "generateUnion sample_converter ''U''
     [\<lparr>name = ''a'', valueType = BaseType Ti32 None, optional = False\<rparr>,
      \<lparr>name = ''b'', valueType = BaseType Tstring None, optional = False\<rparr>]
   = Inl TypeError"
  by (simp add: generateUnion_def generateUnionContents_result)

text \<open>
  C7 (imports). For every file of the parser's resolved file set other than the entry
  file there is exactly one import statement, in the parser's order: a namespace import
  bound to the base name of the module path, from the module path with \<open>.js\<close>. The
  statements are joined by line breaks, and they do not depend on the definitions of the
  entry file, so not on how many types of an imported file are referenced.
\<close>

theorem imports_one_per_resolved_file:
  "importStatements rt this =
     map (\<lambda>p. ''import * as '' @ path_basename rt (module_path rt (thriftPath this) p) None
                @ '' from '' @ [CHR 0x27] @ module_path rt (thriftPath this) p @ ''.js'' @ [CHR 0x27] @ '';'')
       (filter (\<lambda>p. p \<noteq> thriftPath this) (map (path_resolve rt) (idls (thrift this))))
   \<and> generateImports rt this = join ''\<newline>'' (importStatements rt this)
   \<and> generateImports rt (with_definitions this ds) = generateImports rt this"
proof -
  have "(if CHR ''/'' \<notin> set r then ''./'' @ r else r) = (if CHR ''/'' \<in> set r then r else ''./'' @ r)"
    for r :: string
    by simp
  then have "importStatements rt this =
     map (\<lambda>p. ''import * as '' @ path_basename rt (module_path rt (thriftPath this) p) None
                @ '' from '' @ [CHR 0x27] @ module_path rt (thriftPath this) p @ ''.js'' @ [CHR 0x27] @ '';'')
       (filter (\<lambda>p. p \<noteq> thriftPath this) (map (path_resolve rt) (idls (thrift this))))"
    unfolding importStatements_def getImportAbsPaths_def module_path_def Let_def map_map comp_def
    by simp
  then show ?thesis
    by (simp add: generateImports_with_definitions) (simp add: generateImports_def)
qed

text \<open>
  For an entry file \<open>/idl/service.thrift\<close> that includes \<open>common.thrift\<close> beside it and
  \<open>sub/types.thrift\<close> below it, under the sample runtime.
\<close>

lemma generateImports_sample:
  "generateImports sample_runtime
     (sample_converter\<lparr>thrift := \<lparr>definitions = [],
        idls = [''/idl/service.thrift'', ''/idl/common.thrift'', ''/idl/sub/types.thrift'']\<rparr>\<rparr>)
   = ''import * as common from '' @ [CHR 0x27] @ ''./common.js'' @ [CHR 0x27] @ '';\<newline>''
     @ ''import * as types from '' @ [CHR 0x27] @ ''sub/types.js'' @ [CHR 0x27] @ '';''"
  by (simp add: generateImports_def importStatements_def getImportAbsPaths_def sample_converter_def
      sample_runtime_def sample_dirname_def strip_suffix_def)

text \<open>
  C8 (unsupported kinds). A definition whose \<open>type\<close> is none of the seven supported kinds
  yields \<open>null\<close> and one warning, \<open><file>: Skipping <type> <name>\<close> (\<open>?\<close> for a
  missing name), and does not throw. In a file it changes nothing of the outcome: the
  document, or the exception of another definition, is the one of the file without it;
  and whenever the definitions before it are converted, the warning is in the log
  between theirs and those of the definitions after it.
\<close>

theorem unsupported_definition_skipped:
  assumes "k \<notin> set supported_types"
  shows "convertDefinitionToCode rt this (Unsupported k i)
           = (Inr None,
              [path_basename rt (thriftPath this) None @ '': Skipping '' @ k @ '' ''
                 @ (case i of Some n \<Rightarrow> n | None \<Rightarrow> ''?'')])
       \<and> fst (generateFlowFile rt (with_definitions this (ds1 @ [Unsupported k i] @ ds2)))
           = fst (generateFlowFile rt (with_definitions this (ds1 @ ds2)))
       \<and> (\<forall>cs. fst (convertDefinitions rt this ds1) = Inr cs \<longrightarrow>
             snd (generateFlowFile rt (with_definitions this (ds1 @ [Unsupported k i] @ ds2)))
               = snd (convertDefinitions rt this ds1)
                 @ [path_basename rt (thriftPath this) None @ '': Skipping '' @ k @ '' ''
                      @ (case i of Some n \<Rightarrow> n | None \<Rightarrow> ''?'')]
                 @ snd (convertDefinitions rt this ds2))"
proof -
  let ?w = "path_basename rt (thriftPath this) None @ '': Skipping '' @ k @ '' ''
              @ (case i of Some n \<Rightarrow> n | None \<Rightarrow> ''?'')"
  let ?this1 = "with_definitions this (ds1 @ [Unsupported k i] @ ds2)"
  let ?this2 = "with_definitions this (ds1 @ ds2)"
  have one: "convertDefinitionToCode rt this (Unsupported k i) = (Inr None, [?w])"
    using assms by simp
  have run: "convertDefinitions rt this (ds1 @ [Unsupported k i] @ ds2) =
      (case convertDefinitions rt this ds1 of
         (Inl e, w1) \<Rightarrow> (Inl e, w1)
       | (Inr cs1, w1) \<Rightarrow>
           (case convertDefinitions rt this ds2 of
              (Inl e, w2) \<Rightarrow> (Inl e, w1 @ [?w] @ w2)
            | (Inr cs2, w2) \<Rightarrow> (Inr (cs1 @ [None] @ cs2), w1 @ [?w] @ w2)))"
    using assms
    by (simp add: convertDefinitions_append split: prod.splits sum.splits)
  have run': "convertDefinitions rt this (ds1 @ ds2) =
      (case convertDefinitions rt this ds1 of
         (Inl e, w1) \<Rightarrow> (Inl e, w1)
       | (Inr cs1, w1) \<Rightarrow>
           (case convertDefinitions rt this ds2 of
              (Inl e, w2) \<Rightarrow> (Inl e, w1 @ w2)
            | (Inr cs2, w2) \<Rightarrow> (Inr (cs1 @ cs2), w1 @ w2)))"
    by (rule convertDefinitions_append)
  let ?header = "[Some ''// @flow'',
       Some (''// Generated by thrift2flow at '' @ date_now rt
             @ (if withsource this then ''\<newline>// Source: '' @ thriftPath this else [])),
       Some (generateImports rt this)]"
  have flow: "generateFlowFile rt (with_definitions this ds) =
      (case convertDefinitions rt this ds of
         (Inl e, ws) \<Rightarrow> (Inl e, ws)
       | (Inr codes, ws) \<Rightarrow>
           (prettier_format rt (join ''\<newline>\<newline>'' (filter_Boolean (?header @ codes))), ws))" for ds
    by (simp add: generateFlowFile_def Let_def convertDefinitions_with_definitions
        generateImports_with_definitions cong: prod.case_cong sum.case_cong)
  have doc: "fst (generateFlowFile rt ?this1) = fst (generateFlowFile rt ?this2)"
    unfolding flow run run'
    by (simp add: filter_Boolean_def split: prod.splits sum.splits)
  have log: "snd (generateFlowFile rt ?this1)
               = snd (convertDefinitions rt this ds1) @ [?w] @ snd (convertDefinitions rt this ds2)"
    if "fst (convertDefinitions rt this ds1) = Inr cs" for cs
    using that unfolding flow run
    by (auto split: prod.splits sum.splits)
  from one doc log show ?thesis by blast
qed

text \<open>
  A file with an enum, a definition of the unsupported kind \<open>Senum\<close> and an empty struct:
  the warning is logged, and the document holds the enum and the struct.
\<close>

theorem unsupported_definition_skipped_witness:
  "''Senum'' \<notin> set supported_types
   \<and> convertDefinitionToCode sample_runtime sample_converter (Unsupported ''Senum'' (Some ''Legacy''))
       = (Inr None, [''service.thrift: Skipping Senum Legacy''])
   \<and> fst (generateFlowFile sample_runtime
             (with_definitions sample_converter
                ([Enum ''Color'' [\<lparr>ed_id = ''RED'', ed_value = None\<rparr>]]
                 @ [Unsupported ''Senum'' (Some ''Legacy'')] @ [Struct ''Empty'' []])))
       = fst (generateFlowFile sample_runtime
                (with_definitions sample_converter
                   ([Enum ''Color'' [\<lparr>ed_id = ''RED'', ed_value = None\<rparr>]] @ [Struct ''Empty'' []])))
   \<and> generateFlowFile sample_runtime
         (with_definitions sample_converter
            [Enum ''Color'' [\<lparr>ed_id = ''RED'', ed_value = None\<rparr>],
             Unsupported ''Senum'' (Some ''Legacy''), Struct ''Empty'' []])
       = (Inr (''// @flow\<newline>\<newline>''
               @ ''// Generated by thrift2flow at Thu Jan 01 1970 00:00:00 GMT+0000 (Coordinated Universal Time)\<newline>\<newline>''
               @ ''export type ColorValues = 0;\<newline>      export type Color = \"RED\";;\<newline>\<newline>''
               @ ''export type Empty = {||};''),
          [''service.thrift: Skipping Senum Legacy''])"
proof -
  have h: "''Senum'' \<notin> set supported_types"
    by (simp add: supported_types_def)
  have run: "generateFlowFile sample_runtime
         (with_definitions sample_converter
            [Enum ''Color'' [\<lparr>ed_id = ''RED'', ed_value = None\<rparr>],
             Unsupported ''Senum'' (Some ''Legacy''), Struct ''Empty'' []])
       = (Inr (''// @flow\<newline>\<newline>''
               @ ''// Generated by thrift2flow at Thu Jan 01 1970 00:00:00 GMT+0000 (Coordinated Universal Time)\<newline>\<newline>''
               @ ''export type ColorValues = 0;\<newline>      export type Color = \"RED\";;\<newline>\<newline>''
               @ ''export type Empty = {||};''),
          [''service.thrift: Skipping Senum Legacy''])"
    by (simp add: generateFlowFile_def with_definitions_def sample_converter_def sample_runtime_def
        supported_types_def generateEnum_def generateEnumValues_def generateEnumKeys_def
        generateStruct_def generateStructContents_def generateImports_def importStatements_def
        getImportAbsPaths_def filter_Boolean_def enumerate_eq_zip show_nat.simps)
  have name: "path_basename sample_runtime (thriftPath sample_converter) None = ''service.thrift''"
    by (simp add: sample_runtime_def sample_converter_def)
  from unsupported_definition_skipped [OF h, of sample_runtime sample_converter "Some ''Legacy''"
      "[Enum ''Color'' [\<lparr>ed_id = ''RED'', ed_value = None\<rparr>]]" "[Struct ''Empty'' []]"]
  show ?thesis
    using h run by (simp add: name)
qed

text \<open>
  C9 (name-transform consistency). The source does not keep the declared and the referenced
  identifier equal. Take the transform that puts \<open>T\<close> in front of a name, an included file
  \<open>common.thrift\<close> with \<open>struct Foo {}\<close>, and an entry file with
  \<open>typedef common.Foo Bar\<close>. The included file declares \<open>TFoo\<close>. The entry file imports the
  namespace under the untransformed name \<open>common\<close>; the reference node carries the name
  \<open>common.Foo\<close>, and the type mapper passes that whole string through \<open>transformName\<close>:
  given a definition list it renders \<open>Tcommon.Foo\<close>, which names nothing the generated
  files declare. Called as the generator calls it, without the list, it throws, so the
  entry file emits no reference at all.
\<close>

theorem qualified_reference_not_declared_name:
  "fst (generateFlowFile sample_runtime sample_included)
     = Inr (''// @flow\<newline>\<newline>''
            @ ''// Generated by thrift2flow at Thu Jan 01 1970 00:00:00 GMT+0000 (Coordinated Universal Time)\<newline>\<newline>''
            @ ''export type TFoo = {||};'')
   \<and> generateImports sample_runtime sample_entry
       = ''import * as common from '' @ [CHR 0x27] @ ''./common.js'' @ [CHR 0x27] @ '';''
   \<and> convert (types sample_entry) (Identifier ''common.Foo'') (Some (definitions (thrift sample_entry)))
       = Inr ''Tcommon.Foo''
   \<and> fst (generateFlowFile sample_runtime sample_entry) = Inl TypeError"
proof -
  have declared: "fst (generateFlowFile sample_runtime sample_included)
     = Inr (''// @flow\<newline>\<newline>''
            @ ''// Generated by thrift2flow at Thu Jan 01 1970 00:00:00 GMT+0000 (Coordinated Universal Time)\<newline>\<newline>''
            @ ''export type TFoo = {||};'')"
    by (simp add: generateFlowFile_def sample_included_def new_ThriftFileConverter_def sample_runtime_def
        prefix_T_def generateStruct_def generateStructContents_result generateImports_def
        importStatements_def getImportAbsPaths_def filter_Boolean_def)
  have imported: "generateImports sample_runtime sample_entry
       = ''import * as common from '' @ [CHR 0x27] @ ''./common.js'' @ [CHR 0x27] @ '';''"
    by (simp add: generateImports_def importStatements_def getImportAbsPaths_def sample_entry_def
        new_ThriftFileConverter_def sample_runtime_def sample_dirname_def strip_suffix_def)
  have referenced: "convert (types sample_entry) (Identifier ''common.Foo'')
        (Some (definitions (thrift sample_entry))) = Inr ''Tcommon.Foo''"
    by (simp add: convert.simps or_else_def enumType_def isEnum_def sample_entry_def
        new_ThriftFileConverter_def new_TypeConverter_def prefix_T_def)
  have thrown: "fst (generateFlowFile sample_runtime sample_entry) = Inl TypeError"
    by (simp add: generateFlowFile_def sample_entry_def new_ThriftFileConverter_def generateTypedef_throws)
  from declared imported referenced thrown show ?thesis
    by blast
qed

text \<open>
  C10 (quoting of constants). \<open>generateConst\<close> puts a string value between single quotes
  without escaping and any other value as it is, but the declaration is never emitted:
  for \<open>const string X = "x"\<close> the conversion of the declared type throws a TypeError.
\<close>

theorem generateConst_string_throws:
  "generateConst sample_converter ''X'' (BaseType Tstring None) (StringLiteral ''x'') = Inl TypeError"
  by (rule generateConst_throws)

end
